theory Spec2Isabelle
  imports Complex_Main
begin

section \<open>Python values, dictionaries and exceptions\<close>

text \<open>
  The four generators are Python classes whose \<open>generate_script\<close> fills an f-string
  template; the template is the source text of a scene class (\<open>construct\<close> and its helper
  methods).  Two layers are modelled:
  \<^item> the generator itself: the dictionary reads with defaults and the replacement fields
    of the f-string, evaluated in textual order;
  \<^item> the methods of the scene class as the template writes them, after the f-string's
    brace escapes are undone (\<open>{{x}}\<close> in the template is \<open>{x}\<close> in the method).
  Request parameters are JSON values (a finite float is the rational it denotes).  An
  exception is the left summand of a result.  Floating-point arithmetic is idealised:
  decimal literals are rationals, \<open>PI\<close> is the real number \<open>pi\<close>.  The names the scene class
  takes from its imports (\<open>math.log2\<close>, \<open>np.cos\<close>, \<open>np.sin\<close>, \<open>PI\<close>) are read as the
  functions and the constant of the standard library, numpy and the render engine.
\<close>

datatype json =
    JNull
  | JBool bool
  | JInt int
  | JFloat rat
  | JStr string
  | JList "json list"
  | JObj "(string \<times> json) list"

type_synonym pydict = "(string \<times> json) list"

datatype pyerror =
    NameError string
  | AttributeError string
  | IndexError
  | ValueError
  | KeyError string
  | TypeError
  | ZeroDivisionError

text \<open>\<open>d.get(key, default)\<close>\<close>

definition dict_get :: "(string \<times> 'a) list \<Rightarrow> string \<Rightarrow> 'a \<Rightarrow> 'a" where
  "dict_get d key dflt = (case map_of d key of Some v \<Rightarrow> v | None \<Rightarrow> dflt)"

text \<open>
  The truth value of a set display \<open>{e1, ..., en}\<close> with the listed element expressions:
  a set is false only when it is empty, whatever its elements are.
\<close>

definition set_display_truthy :: "'a list \<Rightarrow> bool" where
  "set_display_truthy elems = (elems \<noteq> [])"

text \<open>\<open>s.split('.')[-1]\<close>: the part of \<open>s\<close> after its last dot, all of \<open>s\<close> without one.\<close>

definition split_dot_last :: "string \<Rightarrow> string" where
  "split_dot_last s = rev (takeWhile (\<lambda>c. c \<noteq> CHR ''.'') (rev s))"

section \<open>Name resolution: the scene of \<open>DNSResolutionGenerator.generate_script\<close>\<close>

text \<open>
  The groups a step's arrow can start or end at.  \<open>get_server_position\<close> maps the name
  \<open>cache\<close> to the cache group when the scene has one and to the client group otherwise,
  and an unknown name to \<open>ORIGIN\<close>.
\<close>

datatype dns_group = ClientGroup | CacheGroup | RootGroup | TldGroup | AuthGroup | Origin

definition get_server_position :: "bool \<Rightarrow> string \<Rightarrow> dns_group" where
  "get_server_position has_cache_group server_name =
     (if server_name = ''client'' then ClientGroup
      else if server_name = ''cache'' then (if has_cache_group then CacheGroup else ClientGroup)
      else if server_name = ''root'' then RootGroup
      else if server_name = ''tld'' then TldGroup
      else if server_name = ''auth'' then AuthGroup
      else Origin)"

definition get_step_color :: "nat \<Rightarrow> string" where
  "get_step_color step_num =
     [''PURPLE'', ''BLUE'', ''ORANGE'', ''YELLOW'', ''GREEN'', ''RED'', ''PINK'']
       ! (step_num mod 7)"

definition timings :: "nat list" where
  "timings = [1, 50, 30, 25, 20, 15, 10]"

definition get_step_timing :: "nat \<Rightarrow> nat" where
  "get_step_timing step_num = timings ! (step_num mod length timings)"

text \<open>A step tuple \<open>(from_server, to_server, message, step_id)\<close> of \<open>animate_dns_resolution\<close>.\<close>

record dns_step =
  from_server :: string
  to_server :: string
  message :: string
  step_id :: string

text \<open>
  The step list of \<open>animate_dns_resolution\<close>.  The template writes the guard of the
  insertion as \<open>if {{show_cache}}:\<close>, so the method tests the set display
  \<open>{show_cache}\<close>.
\<close>

definition dns_steps :: "string \<Rightarrow> bool \<Rightarrow> dns_step list" where
  "dns_steps domain show_cache =
     (let steps =
        [\<lparr>from_server = ''client'', to_server = ''root'',
            message = ''Query: '' @ domain @ ''?'', step_id = ''1''\<rparr>,
         \<lparr>from_server = ''root'', to_server = ''client'',
            message = ''Try .'' @ split_dot_last domain @ '' TLD server'', step_id = ''2''\<rparr>,
         \<lparr>from_server = ''client'', to_server = ''tld'',
            message = ''Query: '' @ domain @ ''?'', step_id = ''3''\<rparr>,
         \<lparr>from_server = ''tld'', to_server = ''client'',
            message = ''Try authoritative server'', step_id = ''4''\<rparr>,
         \<lparr>from_server = ''client'', to_server = ''auth'',
            message = ''Query: '' @ domain @ ''?'', step_id = ''5''\<rparr>,
         \<lparr>from_server = ''auth'', to_server = ''client'',
            message = ''Answer: IP address'', step_id = ''6''\<rparr>]
      in if set_display_truthy [show_cache]
         then \<lparr>from_server = ''client'', to_server = ''cache'',
                message = ''Check cache for '' @ domain, step_id = ''0''\<rparr> # steps
         else steps)"

text \<open>
  What one pass of the loop over \<open>enumerate(steps)\<close> plays: the step indicator, the arrow
  between the two groups in the colour of the ordinal, the message label, and the timing
  text when \<open>show_timing\<close> holds.
\<close>

record dns_frame =
  ordinal :: nat
  step_text :: string
  arrow_from :: dns_group
  arrow_to :: dns_group
  arrow_color :: string
  message_label :: string
  timing_ms :: "nat option"

definition dns_frame_of :: "bool \<Rightarrow> bool \<Rightarrow> nat \<times> dns_step \<Rightarrow> dns_frame" where
  "dns_frame_of has_cache_group show_timing p =
     (case p of (step_num, s) \<Rightarrow>
        \<lparr>ordinal = step_num,
         step_text = ''Step '' @ step_id s @ '': '' @ message s,
         arrow_from = get_server_position has_cache_group (from_server s),
         arrow_to = get_server_position has_cache_group (to_server s),
         arrow_color = get_step_color step_num,
         message_label = message s,
         timing_ms = (if show_timing then Some (timings ! (step_num mod length timings))
                      else None)\<rparr>)"

definition animate_dns_resolution ::
  "bool \<Rightarrow> string \<Rightarrow> bool \<Rightarrow> bool \<Rightarrow> json \<Rightarrow> dns_frame list" where
  "animate_dns_resolution has_cache_group domain show_cache show_timing record_types =
     map (dns_frame_of has_cache_group show_timing) (enumerate 0 (dns_steps domain show_cache))"

text \<open>
  \<open>construct\<close>, as far as the resolution steps go.  \<open>create_dns_infrastructure\<close> builds the
  cache group under \<open>if {show_cache}:\<close>, a field the generator fills with \<open>True\<close> or
  \<open>False\<close>; the arguments of \<open>animate_dns_resolution\<close> are the request's values.  The
  template pastes the domain between double quotes (\<open>"{domain}"\<close>, line 42), so
  \<open>domain\<close> here is the string that literal denotes: the request's domain when it holds
  no double quote, backslash or line break (with one of these the literal is another
  string or no literal at all, which is not modelled).
\<close>

definition dns_construct :: "string \<Rightarrow> bool \<Rightarrow> bool \<Rightarrow> json \<Rightarrow> dns_frame list" where
  "dns_construct domain show_cache show_timing record_types =
     animate_dns_resolution show_cache domain show_cache show_timing record_types"

section \<open>Data structures: the scene class of \<open>DataStructureGenerator.generate_script\<close>\<close>

text \<open>
  The methods below are those of the scene class as the template reads.  Waits, colours,
  font sizes and the title are left out; what is kept is every object a method creates
  with its placement, every list or dictionary it updates, and every animation it plays,
  in order.
\<close>

subsection \<open>Complexity table\<close>

definition complexities :: "(string \<times> (string \<times> string) list) list" where
  "complexities =
     [(''array'', [(''access'', ''O(1)''), (''search'', ''O(n)''), (''insert'', ''O(n)''),
                   (''delete'', ''O(n)''), (''space'', ''O(n)'')]),
      (''linked_list'', [(''access'', ''O(n)''), (''search'', ''O(n)''), (''insert'', ''O(1)''),
                   (''delete'', ''O(1)''), (''space'', ''O(n)'')]),
      (''stack'', [(''access'', ''O(n)''), (''search'', ''O(n)''), (''insert'', ''O(1)''),
                   (''delete'', ''O(1)''), (''space'', ''O(n)'')]),
      (''queue'', [(''access'', ''O(n)''), (''search'', ''O(n)''), (''insert'', ''O(1)''),
                   (''delete'', ''O(1)''), (''space'', ''O(n)'')]),
      (''binary_tree'', [(''access'', ''O(log n)''), (''search'', ''O(log n)''),
                   (''insert'', ''O(log n)''), (''delete'', ''O(log n)''), (''space'', ''O(n)'')]),
      (''hash_table'', [(''access'', ''N/A''), (''search'', ''O(1)''), (''insert'', ''O(1)''),
                   (''delete'', ''O(1)''), (''space'', ''O(n)'')]),
      (''graph'', [(''access'', ''O(V+E)''), (''search'', ''O(V+E)''), (''insert'', ''O(1)''),
                   (''delete'', ''O(V+E)''), (''space'', ''O(V+E)'')])]"

text \<open>The default of the lookup \<open>complexities.get(structure_type, {...})\<close>.\<close>

definition unknown_complexity :: "(string \<times> string) list" where
  "unknown_complexity =
     [(''access'', ''O(?)''), (''search'', ''O(?)''), (''insert'', ''O(?)''),
      (''delete'', ''O(?)''), (''space'', ''O(?)'')]"

definition get_complexity_data :: "string \<Rightarrow> (string \<times> string) list" where
  "get_complexity_data structure_type =
     (case map_of complexities structure_type of
        Some c \<Rightarrow> c
      | None \<Rightarrow> unknown_complexity)"

text \<open>\<open>d[key]\<close> on a dictionary.\<close>

definition dict_item :: "(string \<times> 'a) list \<Rightarrow> string \<Rightarrow> pyerror + 'a" where
  "dict_item d key = (case map_of d key of Some v \<Rightarrow> Inr v | None \<Rightarrow> Inl (KeyError key))"

text \<open>The lines of text \<open>show_complexity_info\<close> writes: four time entries, one space entry.\<close>

definition show_complexity_info :: "(string \<times> string) list \<Rightarrow> pyerror + string list" where
  "show_complexity_info complexity_info =
     (case dict_item complexity_info ''access'' of Inl e \<Rightarrow> Inl e | Inr a \<Rightarrow>
     (case dict_item complexity_info ''search'' of Inl e \<Rightarrow> Inl e | Inr s \<Rightarrow>
     (case dict_item complexity_info ''insert'' of Inl e \<Rightarrow> Inl e | Inr i \<Rightarrow>
     (case dict_item complexity_info ''delete'' of Inl e \<Rightarrow> Inl e | Inr d \<Rightarrow>
     (case dict_item complexity_info ''space'' of Inl e \<Rightarrow> Inl e | Inr sp \<Rightarrow>
        Inr [''Access: '' @ a, ''Search: '' @ s, ''Insert: '' @ i, ''Delete: '' @ d,
             ''Space: '' @ sp])))))"

subsection \<open>Array\<close>

text \<open>
  \<open>xs[j]\<close> on a list: a negative index counts from the end, an index out of range raises
  \<open>IndexError\<close>, a Boolean is the integer 0 or 1, any other value raises \<open>TypeError\<close>.
\<close>

definition int_subscript :: "'a list \<Rightarrow> int \<Rightarrow> pyerror + 'a" where
  "int_subscript xs k =
     (if 0 \<le> k \<and> k < int (length xs) then Inr (xs ! nat k)
      else if - int (length xs) \<le> k \<and> k < 0 then Inr (xs ! nat (int (length xs) + k))
      else Inl IndexError)"

definition list_subscript :: "'a list \<Rightarrow> json \<Rightarrow> pyerror + 'a" where
  "list_subscript xs j =
     (case j of
        JInt k \<Rightarrow> int_subscript xs k
      | JBool b \<Rightarrow> int_subscript xs (if b then 1 else 0)
      | _ \<Rightarrow> Inl TypeError)"

text \<open>
  An animation of \<open>perform_array_operations\<close>: \<open>highlight_array_element\<close> on a box (by its
  horizontal shift) and its value, with the operation label and colour.
\<close>

datatype array_play = Highlight rat json string string

text \<open>
  \<open>perform_array_operations\<close>.  The scene class defines \<open>highlight_array_element\<close> and
  neither \<open>update_array_element\<close> nor \<open>search_array_element\<close>: looking either up on
  \<open>self\<close> raises \<open>AttributeError\<close>, before the arguments of the call are evaluated.
\<close>

fun perform_array_operations ::
  "pydict list \<Rightarrow> rat list \<Rightarrow> json list \<Rightarrow> nat list \<Rightarrow> pyerror + array_play list" where
  "perform_array_operations [] boxes vals indices = Inr []"
| "perform_array_operations (operation # operations) boxes vals indices =
     (let op_type = dict_get operation ''type'' (JStr ''access'');
          index = dict_get operation ''index'' (JInt 0);
          val = dict_get operation ''value'' JNull
      in if op_type = JStr ''access'' then
           (case list_subscript boxes index of Inl e \<Rightarrow> Inl e | Inr b \<Rightarrow>
           (case list_subscript vals index of Inl e \<Rightarrow> Inl e | Inr v \<Rightarrow>
           (case perform_array_operations operations boxes vals indices of
              Inl e \<Rightarrow> Inl e
            | Inr played \<Rightarrow> Inr (Highlight b v ''ACCESS'' ''GREEN'' # played))))
         else if op_type = JStr ''update'' \<and> val \<noteq> JNull then
           Inl (AttributeError ''update_array_element'')
         else if op_type = JStr ''search'' then
           Inl (AttributeError ''search_array_element'')
         else perform_array_operations operations boxes vals indices)"

text \<open>
  \<open>create_array_visualization\<close>: the parallel lists of boxes (each by the coefficient of
  \<open>RIGHT\<close> it is shifted by), value texts, index texts and simulated addresses, then the
  operations.  All elements are created in one call of \<open>self.play\<close>; for empty data the
  call has no animation, which the render engine refuses with \<open>ValueError\<close>.
\<close>

record array_scene =
  array_boxes :: "rat list"
  array_values :: "json list"
  array_indices :: "nat list"
  array_addresses :: "nat list"
  array_played :: "array_play list"

definition box_shift :: "nat \<Rightarrow> nat \<Rightarrow> rat" where
  "box_shift i n = (of_nat i - of_nat n / 2 + 1/2) * (14/10)"

definition create_array_visualization :: "json list \<Rightarrow> pydict list \<Rightarrow> pyerror + array_scene" where
  "create_array_visualization data operations =
     (let boxes = map (\<lambda>i. box_shift i (length data)) [0..<length data];
          vals = data;
          indices = [0..<length data];
          addresses = map (\<lambda>i. 1000 + i * 4) [0..<length boxes]
      in if length boxes + length vals + length indices + length addresses = 0
         then Inl ValueError
         else case perform_array_operations operations boxes vals indices of
           Inl e \<Rightarrow> Inl e
         | Inr played \<Rightarrow>
             Inr \<lparr>array_boxes = boxes, array_values = vals, array_indices = indices,
                  array_addresses = addresses, array_played = played\<rparr>)"

subsection \<open>Stack\<close>

text \<open>
  A stack element: the coefficient of \<open>DOWN\<close> its rectangle is shifted by, and the value
  whose text it shows.
\<close>

record stack_element =
  down_shift :: rat
  shown_value :: json

datatype stack_play = PlayPush stack_element | PlayPop stack_element

text \<open>One pass of the loop of \<open>perform_stack_operations\<close> over \<open>current_elements\<close>.\<close>

definition stack_step ::
  "stack_element list \<times> stack_play list \<Rightarrow> pydict \<Rightarrow> stack_element list \<times> stack_play list" where
  "stack_step st operation =
     (case st of (current_elements, played) \<Rightarrow>
        let op_type = dict_get operation ''type'' (JStr ''push'');
            val = dict_get operation ''value'' (JInt 0)
        in if op_type = JStr ''push'' then
             (let element_group =
                    \<lparr>down_shift = 25/10 - of_nat (length current_elements) * (7/10),
                     shown_value = val\<rparr>
              in (current_elements @ [element_group], played @ [PlayPush element_group]))
           else if op_type = JStr ''pop'' \<and> current_elements \<noteq> [] then
             (butlast current_elements, played @ [PlayPop (last current_elements)])
           else (current_elements, played))"

definition perform_stack_operations ::
  "pydict list \<Rightarrow> stack_element list \<Rightarrow> stack_element list \<times> stack_play list" where
  "perform_stack_operations operations elements = foldl stack_step (elements, []) operations"

text \<open>
  \<open>create_stack_visualization\<close>: the initial elements, the element the \<open>TOP\<close> arrow is
  drawn at (none for empty data), and the elements and animations after the operations.
\<close>

record stack_scene =
  stack_elements :: "stack_element list"
  top_pointer :: "stack_element option"
  current_elements :: "stack_element list"
  stack_played :: "stack_play list"

definition stack_initial :: "json list \<Rightarrow> stack_element list" where
  "stack_initial data =
     map (\<lambda>p. case p of (i, v) \<Rightarrow> \<lparr>down_shift = 25/10 - of_nat i * (7/10), shown_value = v\<rparr>)
       (enumerate 0 data)"

definition create_stack_visualization :: "json list \<Rightarrow> pydict list \<Rightarrow> stack_scene" where
  "create_stack_visualization data operations =
     (let elements = stack_initial data;
          r = perform_stack_operations operations elements
      in \<lparr>stack_elements = elements,
          top_pointer = (if elements \<noteq> [] then Some (last elements) else None),
          current_elements = fst r,
          stack_played = snd r\<rparr>)"





subsection \<open>Binary tree\<close>

text \<open>
  The emitted script binds its global names with \<open>from manim import *\<close> and
  \<open>import json\<close> (lines 21 and 22 of the template).  The tree layout calls
  \<open>math.log2\<close> (line 309), and neither import binds the name \<open>math\<close>: evaluating it
  raises \<open>NameError\<close>.  \<open>int_math_log2 math_bound n\<close> is \<open>int(math.log2(n))\<close> for a
  positive integer \<open>n\<close> in a script whose globals bind \<open>math\<close> to the standard module
  (\<open>math_bound\<close>) or leave it unbound; with the module, the value is computed on the
  integers (\<open>log2_floor_eq\<close> below relates it to the real logarithm).  The layout is
  written for either script, and \<open>create_binary_tree_visualization\<close> is the layout of
  the script as emitted, where \<open>math\<close> is unbound.
\<close>

fun log2_floor :: "nat \<Rightarrow> nat" where
  "log2_floor n = (if n < 2 then 0 else Suc (log2_floor (n div 2)))"

declare log2_floor.simps [simp del]

definition int_math_log2 :: "bool \<Rightarrow> nat \<Rightarrow> pyerror + nat" where
  "int_math_log2 math_bound n =
     (if math_bound then Inr (log2_floor n) else Inl (NameError ''math''))"

text \<open>
  A node group: the value whose text it shows and the vector \<open>RIGHT * x + UP * y\<close> it is
  shifted by (its centre, the circle and the text being centred on each other).  An edge
  is a line between two centres.
\<close>

record tree_node =
  node_value :: json
  node_shift :: "rat \<times> rat"

record tree_edge =
  edge_start :: "rat \<times> rat"
  edge_end :: "rat \<times> rat"

datatype tree_play = PlayRoot tree_node | PlayEdgeNode tree_edge tree_node | PlayProperties

record tree_scene =
  nodes :: "nat \<rightharpoonup> tree_node"
  edges :: "tree_edge list"
  tree_played :: "tree_play list"

text \<open>The node group the loop body builds for index \<open>i\<close>, placed by its level.\<close>

definition tree_child :: "bool \<Rightarrow> json list \<Rightarrow> nat \<Rightarrow> pyerror + tree_node" where
  "tree_child math_bound data i =
     (case int_math_log2 math_bound (i + 1) of
        Inl e \<Rightarrow> Inl e
      | Inr level \<Rightarrow>
          (let position_in_level = int i - (2 ^ level - 1);
               x_offset = (of_int position_in_level - (2 powi (int level - 1) - 1/2))
                            * (4 / 2 ^ level);
               y_offset = - of_nat level * (15/10)
           in Inr \<lparr>node_value = data ! i, node_shift = (x_offset, y_offset)\<rparr>))"

text \<open>The body of the loop \<open>for i in range(1, min(len(data), 7))\<close>.\<close>

definition tree_step :: "bool \<Rightarrow> json list \<Rightarrow> tree_scene \<Rightarrow> nat \<Rightarrow> pyerror + tree_scene" where
  "tree_step math_bound data s i =
     (case tree_child math_bound data i of
        Inl e \<Rightarrow> Inl e
      | Inr node_group \<Rightarrow>
          (let nodes' = (nodes s)(i \<mapsto> node_group);
               parent_index = (i - 1) div 2
           in case nodes' parent_index of
                Some parent \<Rightarrow>
                  (let edge = \<lparr>edge_start = node_shift parent,
                               edge_end = node_shift node_group\<rparr>
                   in Inr \<lparr>nodes = nodes', edges = edges s @ [edge],
                           tree_played = tree_played s @ [PlayEdgeNode edge node_group]\<rparr>)
              | None \<Rightarrow> Inr (s\<lparr>nodes := nodes'\<rparr>)))"

text \<open>The loop: an exception in a pass ends it.\<close>

fun tree_loop :: "bool \<Rightarrow> json list \<Rightarrow> nat list \<Rightarrow> tree_scene \<Rightarrow> pyerror + tree_scene" where
  "tree_loop math_bound data [] s = Inr s"
| "tree_loop math_bound data (i # rest) s =
     (case tree_step math_bound data s i of
        Inl e \<Rightarrow> Inl e
      | Inr s' \<Rightarrow> tree_loop math_bound data rest s')"

definition binary_tree_layout ::
  "bool \<Rightarrow> json list \<Rightarrow> pydict list \<Rightarrow> pyerror + tree_scene" where
  "binary_tree_layout math_bound data operations =
     (if data = [] then Inr \<lparr>nodes = Map.empty, edges = [], tree_played = []\<rparr>
      else
        let root_group = \<lparr>node_value = data ! 0, node_shift = (0, 0)\<rparr>;
            s0 = \<lparr>nodes = [0 \<mapsto> root_group], edges = [], tree_played = [PlayRoot root_group]\<rparr>
        in case tree_loop math_bound data [1..<min (length data) 7] s0 of
             Inl e \<Rightarrow> Inl e
           | Inr s \<Rightarrow> Inr (s\<lparr>tree_played := tree_played s @ [PlayProperties]\<rparr>))"

definition create_binary_tree_visualization ::
  "json list \<Rightarrow> pydict list \<Rightarrow> pyerror + tree_scene" where
  "create_binary_tree_visualization data operations = binary_tree_layout False data operations"

subsection \<open>Generic layout and \<open>construct\<close>\<close>

text \<open>
  \<open>create_generic_visualization\<close> writes two texts, a fixed heading and the data; it takes
  no operations.
\<close>

record generic_scene =
  generic_title :: string
  generic_data :: "json list"

definition create_generic_visualization :: "json list \<Rightarrow> generic_scene" where
  "create_generic_visualization data =
     \<lparr>generic_title = ''Generic Data Structure'', generic_data = data\<rparr>"

text \<open>
  \<open>create_linked_list_visualization\<close> draws its nodes and ends with a call of
  \<open>self.perform_linked_list_operations\<close>, a method the scene class does not define.
\<close>

definition create_linked_list_visualization :: "json list \<Rightarrow> pydict list \<Rightarrow> pyerror + unit" where
  "create_linked_list_visualization data operations =
     Inl (AttributeError ''perform_linked_list_operations'')"

datatype ds_body =
    ArrayBody array_scene
  | LinkedListBody
  | StackBody stack_scene
  | TreeBody tree_scene
  | GenericBody generic_scene

record ds_scene =
  complexity_panel :: "string list option"
  body :: ds_body

text \<open>
  The chain of comparisons in \<open>construct\<close>.  The scene class has no method
  \<open>create_queue_visualization\<close>, \<open>create_hash_table_visualization\<close> or
  \<open>create_graph_visualization\<close>.
\<close>

definition ds_dispatch :: "string \<Rightarrow> json list \<Rightarrow> pydict list \<Rightarrow> pyerror + ds_body" where
  "ds_dispatch structure_type data operations =
     (if structure_type = ''array'' then
        (case create_array_visualization data operations of
           Inl e \<Rightarrow> Inl e | Inr s \<Rightarrow> Inr (ArrayBody s))
      else if structure_type = ''linked_list'' then
        (case create_linked_list_visualization data operations of
           Inl e \<Rightarrow> Inl e | Inr u \<Rightarrow> Inr LinkedListBody)
      else if structure_type = ''stack'' then
        Inr (StackBody (create_stack_visualization data operations))
      else if structure_type = ''queue'' then
        Inl (AttributeError ''create_queue_visualization'')
      else if structure_type = ''binary_tree'' then
        (case create_binary_tree_visualization data operations of
           Inl e \<Rightarrow> Inl e | Inr s \<Rightarrow> Inr (TreeBody s))
      else if structure_type = ''hash_table'' then
        Inl (AttributeError ''create_hash_table_visualization'')
      else if structure_type = ''graph'' then
        Inl (AttributeError ''create_graph_visualization'')
      else Inr (GenericBody (create_generic_visualization data)))"

text \<open>
  \<open>construct\<close>: the complexity panel when \<open>show_complexity\<close> holds, then the layout chosen
  by the structure type.  \<open>complexity_info\<close> is the record the generator looked up for the
  structure type.
\<close>

definition ds_construct ::
  "string \<Rightarrow> json list \<Rightarrow> pydict list \<Rightarrow> bool \<Rightarrow> (string \<times> string) list \<Rightarrow> pyerror + ds_scene" where
  "ds_construct structure_type data operations show_complexity complexity_info =
     (case (if show_complexity
            then (case show_complexity_info complexity_info of
                    Inl e \<Rightarrow> Inl e | Inr lines \<Rightarrow> Inr (Some lines))
            else Inr None) of
        Inl e \<Rightarrow> Inl e
      | Inr panel \<Rightarrow>
          (case ds_dispatch structure_type data operations of
             Inl e \<Rightarrow> Inl e
           | Inr b \<Rightarrow> Inr \<lparr>complexity_panel = panel, body = b\<rparr>))"

section \<open>Process flow: the circular layout of \<open>ProcessFlowGenerator.generate_script\<close>\<close>

text \<open>The decimal text of a natural number, for the default name \<open>Step {i+1}\<close>.\<close>

fun str_of_nat :: "nat \<Rightarrow> string" where
  "str_of_nat n =
     (if n < 10 then [char_of (48 + n)]
      else str_of_nat (n div 10) @ [char_of (48 + n mod 10)])"

text \<open>
  A step of a process flow is a dictionary of strings (\<open>name\<close>, \<open>type\<close>, ...).
  \<open>create_step_shape\<close> chooses the outline by the step type and labels it with the step
  name (a long name is broken into two lines, which is not kept here).
\<close>

type_synonym pfstep = "(string \<times> string) list"

datatype step_shape =
    StartShape | EndShape | DecisionShape | SubprocessShape | DataShape | ProcessShape

definition create_step_shape :: "string \<Rightarrow> string \<Rightarrow> step_shape \<times> string" where
  "create_step_shape step_type step_name =
     (if step_type = ''start'' then StartShape
      else if step_type = ''end'' then EndShape
      else if step_type = ''decision'' then DecisionShape
      else if step_type = ''subprocess'' then SubprocessShape
      else if step_type = ''data'' then DataShape
      else ProcessShape,
      step_name)"

text \<open>
  An element of the circle: its shape and label, the angle computed for it and the vector
  \<open>RIGHT * x + UP * y\<close> it is shifted by.  An arrow: the index of the shape from whose
  centre its start is measured, the offset of the start from that centre, and its end
  point.
\<close>

record circ_element =
  elem_shape :: "step_shape \<times> string"
  elem_angle :: real
  elem_shift :: "real \<times> real"

record circ_arrow =
  arrow_source :: nat
  start_offset :: "real \<times> real"
  end_pos :: "real \<times> real"

record circ_scene =
  step_objects :: "circ_element list"
  arrows :: "circ_arrow list"
  cycle_text :: bool

text \<open>\<open>i * 2 * PI / num_steps - PI/2\<close>; the division raises for a zero divisor.\<close>

definition circ_angle :: "nat \<Rightarrow> nat \<Rightarrow> pyerror + real" where
  "circ_angle i num_steps =
     (if num_steps = 0 then Inl ZeroDivisionError
      else Inr (real i * 2 * pi / real num_steps - pi / 2))"

text \<open>
  One pass of the loop of \<open>create_circular_flow\<close> over \<open>enumerate(steps_data)\<close>, with
  radius 2.5: the shape placed for step \<open>i\<close> and the arrow towards the place of step
  \<open>(i + 1) % num_steps\<close>.
\<close>

definition circ_body :: "nat \<Rightarrow> nat \<Rightarrow> pfstep \<Rightarrow> pyerror + circ_element \<times> circ_arrow" where
  "circ_body num_steps i step =
     (let step_name = dict_get step ''name'' (''Step '' @ str_of_nat (i + 1));
          step_type = dict_get step ''type'' ''process''
      in case circ_angle i num_steps of Inl e \<Rightarrow> Inl e | Inr angle \<Rightarrow>
         (let x = (25/10) * cos angle;
              y = (25/10) * sin angle;
              shape = \<lparr>elem_shape = create_step_shape step_type step_name,
                       elem_angle = angle, elem_shift = (x, y)\<rparr>
          in if num_steps = 0 then Inl ZeroDivisionError
             else (let next_i = (i + 1) mod num_steps
                   in case circ_angle next_i num_steps of Inl e \<Rightarrow> Inl e | Inr next_angle \<Rightarrow>
                      (let next_x = (25/10) * cos next_angle;
                           next_y = (25/10) * sin next_angle;
                           arrow = \<lparr>arrow_source = i,
                                    start_offset = ((1/2) * cos (angle + pi/6),
                                                    (1/2) * sin (angle + pi/6)),
                                    end_pos = (next_x - (1/2) * cos (next_angle - pi/6),
                                               next_y - (1/2) * sin (next_angle - pi/6))\<rparr>
                       in Inr (shape, arrow)))))"

fun circ_loop ::
  "nat \<Rightarrow> (nat \<times> pfstep) list \<Rightarrow> circ_element list \<times> circ_arrow list
     \<Rightarrow> pyerror + circ_element list \<times> circ_arrow list" where
  "circ_loop num_steps [] acc = Inr acc"
| "circ_loop num_steps ((i, step) # rest) acc =
     (case circ_body num_steps i step of
        Inl e \<Rightarrow> Inl e
      | Inr r \<Rightarrow> circ_loop num_steps rest (fst acc @ [fst r], snd acc @ [snd r]))"

text \<open>\<open>create_circular_flow\<close>: nothing is drawn for an empty step list.\<close>

definition create_circular_flow :: "pfstep list \<Rightarrow> bool \<Rightarrow> pyerror + circ_scene" where
  "create_circular_flow steps_data show_timing =
     (if steps_data = [] then Inr \<lparr>step_objects = [], arrows = [], cycle_text = False\<rparr>
      else
        case circ_loop (length steps_data) (enumerate 0 steps_data) ([], []) of
          Inl e \<Rightarrow> Inl e
        | Inr r \<Rightarrow> Inr \<lparr>step_objects = fst r, arrows = snd r, cycle_text = True\<rparr>)"

section \<open>The generators: \<open>generate_script\<close>\<close>

text \<open>
  \<open>generate_script\<close> reads the request with \<open>get\<close> and evaluates one f-string.  The
  request dictionary is threaded through every read, so that a write to it would show in
  the dictionary returned.  The script is represented by the texts of its replacement
  fields, in the order of the template; the text between the fields is the template's own
  and the same for every request.
\<close>

definition read :: "string \<Rightarrow> json \<Rightarrow> pydict \<Rightarrow> json \<times> pydict" where
  "read key dflt d = (dict_get d key dflt, d)"

text \<open>
  The text of a field: a string inserted as it is, \<open>format(v, '')\<close> of a request value,
  \<open>json.dumps(v)\<close>, or \<open>s.title()\<close>.
\<close>

datatype field_text = Plain string | Fmt json | Dumps json | Titled string

text \<open>The fields of an f-string are evaluated from left to right; the first exception ends it.\<close>

fun fstring :: "(pyerror + field_text) list \<Rightarrow> pyerror + field_text list" where
  "fstring [] = Inr []"
| "fstring (f # fs) =
     (case f of
        Inl e \<Rightarrow> Inl e
      | Inr t \<Rightarrow> (case fstring fs of Inl e \<Rightarrow> Inl e | Inr ts \<Rightarrow> Inr (t # ts)))"

text \<open>\<open>s.replace(a, b)\<close> for single characters \<open>a\<close> and \<open>b\<close>.\<close>

definition replace_char :: "char \<Rightarrow> char \<Rightarrow> string \<Rightarrow> string" where
  "replace_char a b s = map (\<lambda>c. if c = a then b else c) s"

subsection \<open>Formatting a string with a format specification\<close>

text \<open>
  \<open>format(s, spec)\<close> for a string \<open>s\<close>, after the format specification mini-language:
  a string accepts \<open>[[fill]align][0][width][.precision][s]\<close> with an alignment among
  \<open><\<close>, \<open>>\<close> and \<open>^\<close>; a sign, \<open>#\<close>, a grouping option, the alignment \<open>=\<close>, a presentation
  type other than \<open>s\<close>, or any further character raises \<open>ValueError\<close>.
\<close>

definition is_digit :: "char \<Rightarrow> bool" where
  "is_digit c = (c \<in> set ''0123456789'')"

definition digits_value :: "string \<Rightarrow> nat" where
  "digits_value ds = foldl (\<lambda>n c. 10 * n + (of_char c - 48)) 0 ds"

definition pad :: "char \<Rightarrow> char \<Rightarrow> nat \<Rightarrow> string \<Rightarrow> string" where
  "pad fill align width t =
     (let total = width - length t;
          left = (if align = CHR ''>'' then total
                  else if align = CHR ''^'' then total div 2
                  else 0)
      in replicate left fill @ t @ replicate (total - left) fill)"

definition format_str :: "string \<Rightarrow> string \<Rightarrow> pyerror + string" where
  "format_str s spec =
     (let explicit_fill = (2 \<le> length spec \<and> spec ! 1 \<in> set ''<>=^'');
          bare_align = (\<not> explicit_fill \<and> 1 \<le> length spec \<and> spec ! 0 \<in> set ''<>=^'');
          fill0 = (if explicit_fill then spec ! 0 else CHR '' '');
          align = (if explicit_fill then spec ! 1 else if bare_align then spec ! 0 else CHR ''<'');
          r1 = (if explicit_fill then drop 2 spec else if bare_align then drop 1 spec else spec);
          zero = (\<not> explicit_fill \<and> r1 \<noteq> [] \<and> hd r1 = CHR ''0'');
          fill = (if zero then CHR ''0'' else fill0);
          r2 = (if zero then tl r1 else r1);
          width = digits_value (takeWhile is_digit r2);
          r3 = dropWhile is_digit r2;
          has_precision = (r3 \<noteq> [] \<and> hd r3 = CHR ''.'');
          precision_digits = (if has_precision then takeWhile is_digit (tl r3) else []);
          r4 = (if has_precision then dropWhile is_digit (tl r3) else r3)
      in if align = CHR ''='' then Inl ValueError
         else if has_precision \<and> precision_digits = [] then Inl ValueError
         else if r4 \<noteq> [] \<and> r4 \<noteq> ''s'' then Inl ValueError
         else Inr (pad fill align width
                     (if has_precision then take (digits_value precision_digits) s else s)))"

text \<open>
  A replacement field whose format specification holds nested replacement fields: the
  nested fields are formatted first, from left to right, their texts and the literal
  parts make up the specification, and the value is formatted with it.
\<close>

datatype spec_part = SpecText string | SpecField string string

fun eval_spec :: "spec_part list \<Rightarrow> pyerror + string" where
  "eval_spec [] = Inr []"
| "eval_spec (SpecText t # ps) =
     (case eval_spec ps of Inl e \<Rightarrow> Inl e | Inr r \<Rightarrow> Inr (t @ r))"
| "eval_spec (SpecField v spec # ps) =
     (case format_str v spec of
        Inl e \<Rightarrow> Inl e
      | Inr t \<Rightarrow> (case eval_spec ps of Inl e \<Rightarrow> Inl e | Inr r \<Rightarrow> Inr (t @ r)))"

definition format_field :: "string \<Rightarrow> spec_part list \<Rightarrow> pyerror + field_text" where
  "format_field v parts =
     (case eval_spec parts of
        Inl e \<Rightarrow> Inl e
      | Inr spec \<Rightarrow> (case format_str v spec of Inl e \<Rightarrow> Inl e | Inr t \<Rightarrow> Inr (Plain t)))"

subsection \<open>\<open>HTTPFlowGenerator\<close>, \<open>DNSResolutionGenerator\<close> and \<open>ProcessFlowGenerator\<close>\<close>

definition http_generate_script :: "pydict \<Rightarrow> string \<Rightarrow> (pyerror + field_text list) \<times> pydict" where
  "http_generate_script flow_data animation_id =
     (case read ''steps'' (JList []) flow_data of (steps, d1) \<Rightarrow>
      case read ''title'' (JStr ''HTTP Request Flow'') d1 of (title, d2) \<Rightarrow>
      case read ''show_headers'' (JBool True) d2 of (show_headers, d3) \<Rightarrow>
      case read ''show_status_codes'' (JBool True) d3 of (show_status_codes, d4) \<Rightarrow>
      case read ''protocol_version'' (JStr ''HTTP/1.1'') d4 of (protocol_version, d5) \<Rightarrow>
        (fstring
           [Inr (Plain (replace_char CHR ''-'' CHR ''_'' animation_id)),
            Inr (Fmt title),
            Inr (Fmt protocol_version),
            Inr (Dumps steps), Inr (Fmt show_headers), Inr (Fmt show_status_codes)],
         d5))"

definition dns_generate_script :: "pydict \<Rightarrow> string \<Rightarrow> (pyerror + field_text list) \<times> pydict" where
  "dns_generate_script dns_data animation_id =
     (case read ''domain'' (JStr ''example.com'') dns_data of (domain, d1) \<Rightarrow>
      case read ''show_cache'' (JBool True) d1 of (show_cache, d2) \<Rightarrow>
      case read ''show_timing'' (JBool True) d2 of (show_timing, d3) \<Rightarrow>
      case read ''record_types'' (JList [JStr ''A'']) d3 of (record_types, d4) \<Rightarrow>
        (fstring
           [Inr (Plain (replace_char CHR ''-'' CHR ''_'' animation_id)),
            Inr (Fmt domain),
            Inr (Fmt domain), Inr (Fmt show_cache), Inr (Fmt show_timing), Inr (Dumps record_types),
            Inr (Fmt domain),
            Inr (Fmt domain),
            Inr (Fmt domain),
            Inr (Fmt show_cache),
            Inr (Fmt show_cache),
            Inr (Fmt domain)],
         d4))"

definition pf_generate_script :: "pydict \<Rightarrow> string \<Rightarrow> (pyerror + field_text list) \<times> pydict" where
  "pf_generate_script process_data animation_id =
     (case read ''steps'' (JList []) process_data of (steps, d1) \<Rightarrow>
      case read ''title'' (JStr ''Process Flow'') d1 of (title, d2) \<Rightarrow>
      case read ''flow_type'' (JStr ''linear'') d2 of (flow_type, d3) \<Rightarrow>
      case read ''show_timing'' (JBool False) d3 of (show_timing, d4) \<Rightarrow>
        (fstring
           [Inr (Plain (replace_char CHR ''-'' CHR ''_'' animation_id)),
            Inr (Fmt title),
            Inr (Fmt flow_type), Inr (Dumps steps), Inr (Fmt show_timing),
            Inr (Fmt flow_type), Inr (Dumps steps), Inr (Fmt show_timing),
            Inr (Fmt flow_type), Inr (Dumps steps), Inr (Fmt show_timing),
            Inr (Dumps steps), Inr (Fmt show_timing),
            Inr (Dumps steps)],
         d4))"

subsection \<open>\<open>DataStructureGenerator\<close>\<close>

text \<open>
  \<open>self.get_complexity_data(structure_type)\<close> on a request value: a list or a dictionary
  is not hashable and cannot be looked up; a value that is not a string is no key of the
  table.
\<close>

definition get_complexity_data_of :: "json \<Rightarrow> pyerror + (string \<times> string) list" where
  "get_complexity_data_of structure_type =
     (case structure_type of
        JStr s \<Rightarrow> Inr (get_complexity_data s)
      | JList xs \<Rightarrow> Inl TypeError
      | JObj kvs \<Rightarrow> Inl TypeError
      | _ \<Rightarrow> Inr unknown_complexity)"

text \<open>\<open>structure_type.replace('_', ' ').title()\<close>: only a string has \<open>replace\<close>.\<close>

definition title_field :: "json \<Rightarrow> pyerror + field_text" where
  "title_field structure_type =
     (case structure_type of
        JStr s \<Rightarrow> Inr (Titled (replace_char CHR ''_'' CHR '' '' s))
      | _ \<Rightarrow> Inl (AttributeError ''replace''))"

text \<open>
  The template holds the method \<open>get_complexity_data\<close> of the scene class with the braces
  of its dictionary displays written singly, so each display is a replacement field.  In
  \<open>"access": "O(1)", ... }\<close> the expression is the string \<open>access\<close> and the text after the
  colon, up to the closing brace, is its format specification; the display of the whole
  table is a field with expression \<open>array\<close> whose specification nests one such field per
  entry.  \<open>entry_spec\<close> is the specification text of an entry, ending in a line break and
  the indentation of the closing brace.
\<close>

definition dq :: "string \<Rightarrow> string" where
  "dq s = [CHR 0x22] @ s @ [CHR 0x22]"

definition entry_spec :: "(string \<times> string) list \<Rightarrow> nat \<Rightarrow> string" where
  "entry_spec c indent =
     '' '' @ dq (snd (hd c))
       @ concat (map (\<lambda>kv. '', '' @ dq (fst kv) @ '': '' @ dq (snd kv)) (tl c))
       @ [CHR 0x0A] @ replicate indent CHR '' ''"

definition table_spec :: "spec_part list" where
  "table_spec =
     concat (map (\<lambda>p. case p of (i, name, c) \<Rightarrow>
                  [SpecText (if i = 0 then '' ''
                             else '','' @ [CHR 0x0A] @ replicate 12 CHR '' '' @ dq name @ '': ''),
                   SpecField ''access'' (entry_spec c 12)])
               (enumerate 0 complexities))
       @ [SpecText ([CHR 0x0A] @ replicate 8 CHR '' '')]"

definition ds_generate_script :: "pydict \<Rightarrow> string \<Rightarrow> (pyerror + field_text list) \<times> pydict" where
  "ds_generate_script structure_data animation_id =
     (case read ''type'' (JStr ''array'') structure_data of (structure_type, d1) \<Rightarrow>
      case read ''data'' (JList [JInt 1, JInt 2, JInt 3, JInt 4, JInt 5]) d1 of (data, d2) \<Rightarrow>
      case read ''operations'' (JList []) d2 of (operations, d3) \<Rightarrow>
      case read ''show_complexity'' (JBool True) d3 of (show_complexity, d4) \<Rightarrow>
        (case get_complexity_data_of structure_type of
           Inl e \<Rightarrow> Inl e
         | Inr complexity_info \<Rightarrow>
             fstring
               ([Inr (Plain (replace_char CHR ''-'' CHR ''_'' animation_id)),
                 Inr (Dumps (JObj (map (\<lambda>kv. (fst kv, JStr (snd kv))) complexity_info))),
                 title_field structure_type,
                 Inr (Fmt show_complexity)]
                @ concat (replicate 7
                    [Inr (Fmt structure_type), Inr (Dumps data), Inr (Dumps operations)])
                @ [Inr (Dumps data)]
                @ map (\<lambda>k. case dict_item complexity_info k of
                               Inl e \<Rightarrow> Inl e | Inr v \<Rightarrow> Inr (Plain v))
                    [''access'', ''search'', ''insert'', ''delete'', ''space'']
                @ [format_field ''array'' table_spec,
                   format_field ''access''
                     [SpecText (entry_spec unknown_complexity 8)],
                   Inl (NameError ''base_address''),
                   Inr (Fmt data)]),
         d4))"

section \<open>Name resolution: results\<close>

lemma dns_steps_length: "length (dns_steps domain show_cache) = 7"
  by (simp add: dns_steps_def set_display_truthy_def)

text \<open>
  With caching enabled the scene plays 7 steps; the first is the cache check, from the
  client group to the cache group, and carries timing 1, the least of the table.
\<close>

lemma dns_cache_enabled_frames:
  "length (dns_construct domain True show_timing rt) = 7
   \<and> arrow_from (dns_construct domain True show_timing rt ! 0) = ClientGroup
   \<and> arrow_to (dns_construct domain True show_timing rt ! 0) = CacheGroup
   \<and> message_label (dns_construct domain True show_timing rt ! 0) = ''Check cache for '' @ domain"
  by (simp add: dns_construct_def animate_dns_resolution_def dns_steps_def
      set_display_truthy_def dns_frame_of_def get_server_position_def)

lemma dns_cache_enabled_min_timing:
  assumes "f \<in> set (dns_construct domain True True rt)"
  shows "timing_ms (dns_construct domain True True rt ! 0) = Some 1"
    and "\<exists>t. timing_ms f = Some t \<and> 1 \<le> t"
  using assms
  by (auto simp add: dns_construct_def animate_dns_resolution_def dns_steps_def
      set_display_truthy_def dns_frame_of_def timings_def)

text \<open>
  C1. Claimed: with caching enabled the step sequence has exactly 7 steps, ordinal 0 is the
  client-to-cache check and carries the least timing value; with caching disabled the
  sequence has exactly 6 steps.  The enabled case holds (\<open>dns_cache_enabled_frames\<close>,
  \<open>dns_cache_enabled_min_timing\<close>).  The disabled case does not: for the request
  \<open>{domain: example.com, show_cache: false}\<close> the scene still plays 7 steps, the first
  being the cache check, drawn from the client group to itself because no cache group
  exists.
\<close>

theorem dns_cache_disabled_still_seven_steps:
  "length (dns_construct ''example.com'' False True (JList [JStr ''A''])) = 7
   \<and> map ordinal (dns_construct ''example.com'' False True (JList [JStr ''A''])) = [0, 1, 2, 3, 4, 5, 6]
   \<and> step_text (dns_construct ''example.com'' False True (JList [JStr ''A'']) ! 0)
       = ''Step 0: Check cache for example.com''
   \<and> arrow_from (dns_construct ''example.com'' False True (JList [JStr ''A'']) ! 0) = ClientGroup
   \<and> arrow_to (dns_construct ''example.com'' False True (JList [JStr ''A'']) ! 0) = ClientGroup"
  by (simp add: dns_construct_def animate_dns_resolution_def dns_steps_def
      set_display_truthy_def dns_frame_of_def get_server_position_def)

section \<open>Binary tree: results\<close>

text \<open>
  \<open>log2_floor\<close> is the floor of the real logarithm to base 2.
\<close>

lemma log2_floor_eq: "0 < n \<Longrightarrow> int (log2_floor n) = \<lfloor>log 2 (real n)\<rfloor>"
proof (induction n rule: log2_floor.induct)
  case (1 n)
  show ?case
  proof (cases "n < 2")
    case True
    with 1(2) have "n = 1" by simp
    then show ?thesis by (simp add: log2_floor.simps)
  next
    case False
    then have "0 < n div 2" by simp
    with 1(1) False have "int (log2_floor (n div 2)) = \<lfloor>log 2 (real (n div 2))\<rfloor>" by simp
    moreover have "\<lfloor>log 2 (real n)\<rfloor> = \<lfloor>log 2 (real (n div 2))\<rfloor> + 1"
      using False by (intro floor_log2_div2) simp
    ultimately show ?thesis using False by (simp add: log2_floor.simps [of n])
  qed
qed

lemma log2_floor_pos: "2 \<le> n \<Longrightarrow> 1 \<le> log2_floor n"
  by (simp add: log2_floor.simps [of n])

text \<open>
  The loop, whatever \<open>math\<close> is bound to: it reads only items below the cap, and when
  it completes it has stored a node at every index it passed.
\<close>

lemma tree_loop_snoc:
  "tree_loop m data (xs @ [i]) s =
     (case tree_loop m data xs s of Inl e \<Rightarrow> Inl e | Inr s' \<Rightarrow> tree_step m data s' i)"
  by (induction xs arbitrary: s) (simp_all split: sum.splits)








text \<open>
  The script as emitted: the first pass of the loop raises \<open>NameError\<close>, so every list
  of two or more items does.
\<close>

lemma tree_loop_unbound:
  "xs \<noteq> [] \<Longrightarrow> tree_loop False data xs s = Inl (NameError ''math'')"
  by (cases xs) (simp_all add: tree_step_def tree_child_def int_math_log2_def)

lemma create_binary_tree_raises:
  "2 \<le> length data \<Longrightarrow>
   create_binary_tree_visualization data operations = Inl (NameError ''math'')"
proof -
  assume l: "2 \<le> length data"
  then have ne: "data \<noteq> []" by auto
  from l have "[1..<min (length data) 7] \<noteq> []" by (auto simp add: min_def)
  then have r: "tree_loop False data [1..<min (length data) 7] s = Inl (NameError ''math'')" for s
    by (rule tree_loop_unbound)
  show ?thesis
    unfolding create_binary_tree_visualization_def binary_tree_layout_def Let_def r
    using ne by simp
qed

text \<open>
  A script that binds \<open>math\<close>: the loop in closed form, and the placement of node
  \<open>i\<close> for \<open>1 \<le> i < min (length data) 7\<close> at level \<open>\<lfloor>log\<^sub>2 (i + 1)\<rfloor>\<close>, with the
  position in the level, the offsets and the edge from the parent at \<open>(i - 1) div 2\<close>.
\<close>

lemma tree_child_bound:
  "tree_child True data i =
     Inr \<lparr>node_value = data ! i,
          node_shift =
            (let level = log2_floor (i + 1);
                 position_in_level = int i - (2 ^ level - 1)
             in ((of_int position_in_level - (2 powi (int level - 1) - 1/2)) * (4 / 2 ^ level),
                 - of_nat level * (15/10)))\<rparr>"
  by (simp add: tree_child_def int_math_log2_def Let_def)

lemma tree_child_bound_root:
  "projr (tree_child True data 0) = \<lparr>node_value = data ! 0, node_shift = (0, 0)\<rparr>"
  by (simp add: tree_child_bound log2_floor.simps power_int_def)

lemma tree_loop_closed:
  "1 \<le> n \<Longrightarrow>
   tree_loop True data [1..<n]
     \<lparr>nodes = [0 \<mapsto> projr (tree_child True data 0)], edges = [],
      tree_played = [PlayRoot (projr (tree_child True data 0))]\<rparr>
   = Inr \<lparr>nodes = (\<lambda>j. if j < n then Some (projr (tree_child True data j)) else None),
      edges = map (\<lambda>i. \<lparr>edge_start = node_shift (projr (tree_child True data ((i - 1) div 2))),
                          edge_end = node_shift (projr (tree_child True data i))\<rparr>) [1..<n],
      tree_played = PlayRoot (projr (tree_child True data 0)) #
        map (\<lambda>i. PlayEdgeNode
                   \<lparr>edge_start = node_shift (projr (tree_child True data ((i - 1) div 2))),
                    edge_end = node_shift (projr (tree_child True data i))\<rparr>
                   (projr (tree_child True data i))) [1..<n]\<rparr>"
proof (induction n)
  case 0
  then show ?case by simp
next
  case (Suc n)
  show ?case
  proof (cases "n = 0")
    case True
    then show ?thesis by (auto simp add: fun_eq_iff)
  next
    case False
    then have n1: "1 \<le> n" by simp
    have lt: "(n - 1) div 2 < n" using False by (simp add: div_less_iff_less_mult)
    have up: "[1..<Suc n] = [1..<n] @ [n]" using n1 by simp
    obtain c where c: "tree_child True data n = Inr c" using tree_child_bound by blast
    show ?thesis
      unfolding up tree_loop_snoc Suc.IH [OF n1]
      using lt
      by (auto simp add: tree_step_def c Let_def fun_eq_iff)
  qed
qed

lemma binary_tree_layout_closed:
  "data \<noteq> [] \<Longrightarrow>
   binary_tree_layout True data operations =
     Inr \<lparr>nodes = (\<lambda>j. if j < min (length data) 7
                        then Some (projr (tree_child True data j)) else None),
      edges = map (\<lambda>i. \<lparr>edge_start = node_shift (projr (tree_child True data ((i - 1) div 2))),
                          edge_end = node_shift (projr (tree_child True data i))\<rparr>)
                [1..<min (length data) 7],
      tree_played = PlayRoot (projr (tree_child True data 0)) #
        map (\<lambda>i. PlayEdgeNode
                   \<lparr>edge_start = node_shift (projr (tree_child True data ((i - 1) div 2))),
                    edge_end = node_shift (projr (tree_child True data i))\<rparr>
                   (projr (tree_child True data i)))
          [1..<min (length data) 7] @ [PlayProperties]\<rparr>"
proof -
  assume ne: "data \<noteq> []"
  then have "1 \<le> min (length data) 7" by (cases data) simp_all
  from tree_loop_closed [OF this, of data] ne show ?thesis
    by (simp add: binary_tree_layout_def Let_def tree_child_bound_root)
qed

lemma tree_child_shift:
  assumes "1 \<le> i"
  shows "node_shift (projr (tree_child True data i)) =
             (let level = nat \<lfloor>log 2 (real (i + 1))\<rfloor>;
                  position_in_level = int i - (2 ^ level - 1)
              in ((of_int position_in_level - (2 ^ (level - 1) - 1/2)) * (4 / 2 ^ level),
                  - of_nat level * (15/10)))"
proof -
  define L where "L = nat \<lfloor>log 2 (real (i + 1))\<rfloor>"
  have lv: "log2_floor (i + 1) = L"
    using log2_floor_eq [of "i + 1"] by (simp add: L_def)
  have "1 \<le> log2_floor (i + 1)" using assms by (intro log2_floor_pos) simp
  then have pos: "1 \<le> L" by (simp only: lv)
  then have pw: "(2::rat) powi (int L - 1) = 2 ^ (L - 1)"
    by (simp add: power_int_def nat_diff_distrib')
  show ?thesis
    unfolding tree_child_bound Let_def lv L_def [symmetric] pw by simp
qed

lemma binary_tree_placement_with_math:
  assumes "1 \<le> i" and "i < min (length data) 7"
  shows "\<exists>s child parent.
           binary_tree_layout True data operations = Inr s
         \<and> nodes s i = Some child
         \<and> node_value child = data ! i
         \<and> node_shift child =
             (let level = nat \<lfloor>log 2 (real (i + 1))\<rfloor>;
                  position_in_level = int i - (2 ^ level - 1)
              in ((of_int position_in_level - (2 ^ (level - 1) - 1/2)) * (4 / 2 ^ level),
                  - of_nat level * (15/10)))
         \<and> nodes s ((i - 1) div 2) = Some parent
         \<and> \<lparr>edge_start = node_shift parent, edge_end = node_shift child\<rparr> \<in> set (edges s)"
proof -
  from assms have ne: "data \<noteq> []" by auto
  have par: "(i - 1) div 2 < min (length data) 7" using assms by auto
  have mem: "i \<in> set [1..<min (length data) 7]" using assms by simp
  let ?c = "\<lambda>j. projr (tree_child True data j)"
  let ?s = "\<lparr>nodes = (\<lambda>j. if j < min (length data) 7 then Some (?c j) else None),
      edges = map (\<lambda>i. \<lparr>edge_start = node_shift (?c ((i - 1) div 2)),
                          edge_end = node_shift (?c i)\<rparr>) [1..<min (length data) 7],
      tree_played = PlayRoot (?c 0) #
        map (\<lambda>i. PlayEdgeNode \<lparr>edge_start = node_shift (?c ((i - 1) div 2)),
                          edge_end = node_shift (?c i)\<rparr> (?c i))
          [1..<min (length data) 7] @ [PlayProperties]\<rparr>"
  have 1: "binary_tree_layout True data operations = Inr ?s"
    by (rule binary_tree_layout_closed [OF ne])
  have 2: "nodes ?s i = Some (?c i)" using assms(2) by simp
  have 3: "node_value (?c i) = data ! i" by (simp add: tree_child_bound)
  have 5: "nodes ?s ((i - 1) div 2) = Some (?c ((i - 1) div 2))"
    using par by simp
  have 6: "\<lparr>edge_start = node_shift (?c ((i - 1) div 2)),
            edge_end = node_shift (?c i)\<rparr> \<in> set (edges ?s)"
    using mem by (simp only: tree_scene.simps set_map) (rule image_eqI [of _ _ i], simp_all)
  from 1 2 3 tree_child_shift [OF assms(1), of data] 5 6 show ?thesis by blast
qed

text \<open>
  C2. Claimed: for every data list and every index \<open>i\<close> with
  \<open>1 \<le> i < min (length data) 7\<close> the layout places node \<open>i\<close> at level
  \<open>\<lfloor>log\<^sub>2 (i + 1)\<rfloor>\<close> with the stated offsets and connects it to its parent.  For the data
  \<open>[50, 30, 70, 20, 40, 60, 80]\<close> the layout of the emitted script raises \<open>NameError\<close> at
  \<open>math.log2\<close> in the pass for index 1, after the root is drawn: no child is placed and no
  edge is drawn.  With \<open>math\<close> bound the placement is the claimed one
  (\<open>binary_tree_placement_with_math\<close>).
\<close>

theorem binary_tree_layout_raises_name_error:
  "create_binary_tree_visualization
     [JInt 50, JInt 30, JInt 70, JInt 20, JInt 40, JInt 60, JInt 80] []
     = Inl (NameError ''math'')
   \<and> ds_construct ''binary_tree''
       [JInt 50, JInt 30, JInt 70, JInt 20, JInt 40, JInt 60, JInt 80] [] True
       (get_complexity_data ''binary_tree'')
     = Inl (NameError ''math'')"
proof -
  have c: "create_binary_tree_visualization
     [JInt 50, JInt 30, JInt 70, JInt 20, JInt 40, JInt 60, JInt 80] []
     = Inl (NameError ''math'')"
    by (rule create_binary_tree_raises) simp
  show ?thesis
    unfolding ds_construct_def ds_dispatch_def c
    by (simp add: show_complexity_info_def dict_item_def get_complexity_data_def complexities_def)
qed




section \<open>Stack: results\<close>












section \<open>Circular process flow: results\<close>

lemma circ_body_ok:
  assumes "0 < n"
  shows "\<exists>r. circ_body n i step = Inr r
     \<and> elem_angle (fst r) = real i * 2 * pi / real n - pi / 2
     \<and> elem_shift (fst r) = ((25/10) * cos (elem_angle (fst r)), (25/10) * sin (elem_angle (fst r)))
     \<and> elem_shape (fst r) = create_step_shape (dict_get step ''type'' ''process'')
                              (dict_get step ''name'' (''Step '' @ str_of_nat (i + 1)))
     \<and> arrow_source (snd r) = i
     \<and> start_offset (snd r) = ((1/2) * cos (elem_angle (fst r) + pi/6),
                                (1/2) * sin (elem_angle (fst r) + pi/6))
     \<and> end_pos (snd r) =
         ((25/10) * cos (real ((i + 1) mod n) * 2 * pi / real n - pi / 2)
            - (1/2) * cos (real ((i + 1) mod n) * 2 * pi / real n - pi / 2 - pi/6),
          (25/10) * sin (real ((i + 1) mod n) * 2 * pi / real n - pi / 2)
            - (1/2) * sin (real ((i + 1) mod n) * 2 * pi / real n - pi / 2 - pi/6))"
  using assms by (simp add: circ_body_def circ_angle_def Let_def)

lemma circ_body_proj:
  assumes "0 < n"
  shows "elem_angle (fst (projr (circ_body n i step))) = real i * 2 * pi / real n - pi / 2"
    and "elem_shift (fst (projr (circ_body n i step))) =
           ((25/10) * cos (real i * 2 * pi / real n - pi / 2),
            (25/10) * sin (real i * 2 * pi / real n - pi / 2))"
    and "arrow_source (snd (projr (circ_body n i step))) = i"
    and "end_pos (snd (projr (circ_body n i step))) =
         ((25/10) * cos (real ((i + 1) mod n) * 2 * pi / real n - pi / 2)
            - (1/2) * cos (real ((i + 1) mod n) * 2 * pi / real n - pi / 2 - pi/6),
          (25/10) * sin (real ((i + 1) mod n) * 2 * pi / real n - pi / 2)
            - (1/2) * sin (real ((i + 1) mod n) * 2 * pi / real n - pi / 2 - pi/6))"
  using assms by (simp_all add: circ_body_def circ_angle_def Let_def)

lemma circ_loop_closed:
  assumes "0 < n"
  shows "circ_loop n xs acc =
     Inr (fst acc @ map (\<lambda>p. fst (projr (circ_body n (fst p) (snd p)))) xs,
          snd acc @ map (\<lambda>p. snd (projr (circ_body n (fst p) (snd p)))) xs)"
proof (induction xs arbitrary: acc)
  case Nil
  show ?case by simp
next
  case (Cons p xs)
  obtain i step where p: "p = (i, step)" by (cases p)
  from circ_body_ok [OF assms, of i step] obtain r where r: "circ_body n i step = Inr r" by blast
  show ?case by (simp add: p r Cons.IH)
qed

lemma create_circular_flow_closed:
  assumes "steps_data \<noteq> []"
  shows "create_circular_flow steps_data show_timing =
     Inr \<lparr>step_objects = map (\<lambda>p. fst (projr (circ_body (length steps_data) (fst p) (snd p))))
                           (enumerate 0 steps_data),
          arrows = map (\<lambda>p. snd (projr (circ_body (length steps_data) (fst p) (snd p))))
                           (enumerate 0 steps_data),
          cycle_text = True\<rparr>"
proof -
  from assms have "0 < length steps_data" by simp
  from circ_loop_closed [OF this] assms show ?thesis
    by (simp add: create_circular_flow_def)
qed

lemma create_circular_flow_total: "\<exists>s. create_circular_flow steps_data show_timing = Inr s"
  by (cases "steps_data = []")
     (simp_all add: create_circular_flow_closed, simp add: create_circular_flow_def)

text \<open>
  For every step list of length \<open>N \<ge> 1\<close> the circular layout does not raise and places
  one element and one arrow per step; element \<open>i\<close> is placed at angle
  \<open>i * 2\<pi> / N - \<pi>/2\<close> on the circle of radius 2.5, consecutive angles differ by
  \<open>2\<pi> / N\<close>; the arrow of element \<open>i\<close> ends at the point computed from the place of element
  \<open>(i + 1) mod N\<close>, so the arrow of element \<open>N - 1\<close> ends at element 0; for 5 steps the
  angles in degrees are -90, -18, 54, 126, 198.
\<close>

lemma circular_flow_angles:
  assumes "steps_data \<noteq> []"
  shows "\<exists>s. create_circular_flow steps_data show_timing = Inr s
     \<and> length (step_objects s) = length steps_data
     \<and> length (arrows s) = length steps_data
     \<and> (\<forall>i < length steps_data.
           elem_angle (step_objects s ! i) = real i * 2 * pi / real (length steps_data) - pi / 2
         \<and> elem_shift (step_objects s ! i) =
             ((25/10) * cos (elem_angle (step_objects s ! i)),
              (25/10) * sin (elem_angle (step_objects s ! i)))
         \<and> (Suc i < length steps_data \<longrightarrow>
              elem_angle (step_objects s ! Suc i) - elem_angle (step_objects s ! i)
                = 2 * pi / real (length steps_data))
         \<and> arrow_source (arrows s ! i) = i
         \<and> end_pos (arrows s ! i) =
             (let target = step_objects s ! ((i + 1) mod length steps_data)
              in (fst (elem_shift target) - (1/2) * cos (elem_angle target - pi/6),
                  snd (elem_shift target) - (1/2) * sin (elem_angle target - pi/6))))
     \<and> end_pos (arrows s ! (length steps_data - 1)) =
             (fst (elem_shift (step_objects s ! 0)) - (1/2) * cos (elem_angle (step_objects s ! 0) - pi/6),
              snd (elem_shift (step_objects s ! 0)) - (1/2) * sin (elem_angle (step_objects s ! 0) - pi/6))
     \<and> (length steps_data = 5 \<longrightarrow>
           map (\<lambda>e. elem_angle e * 180 / pi) (step_objects s) = [-90, -18, 54, 126, 198])"
proof -
  let ?n = "length steps_data"
  let ?s = "\<lparr>step_objects = map (\<lambda>p. fst (projr (circ_body ?n (fst p) (snd p))))
                           (enumerate 0 steps_data),
          arrows = map (\<lambda>p. snd (projr (circ_body ?n (fst p) (snd p))))
                           (enumerate 0 steps_data),
          cycle_text = True\<rparr>"
  from assms have n: "0 < ?n" by simp
  have obj: "\<And>i. i < ?n \<Longrightarrow> step_objects ?s ! i = fst (projr (circ_body ?n i (steps_data ! i)))"
    by (simp add: nth_enumerate_eq)
  have arr: "\<And>i. i < ?n \<Longrightarrow> arrows ?s ! i = snd (projr (circ_body ?n i (steps_data ! i)))"
    by (simp add: nth_enumerate_eq)
  have ang: "\<And>i. i < ?n \<Longrightarrow> elem_angle (step_objects ?s ! i) = real i * 2 * pi / real ?n - pi / 2"
    by (simp only: obj circ_body_proj [OF n])
  have shf: "\<And>i. i < ?n \<Longrightarrow> elem_shift (step_objects ?s ! i) =
             ((25/10) * cos (elem_angle (step_objects ?s ! i)),
              (25/10) * sin (elem_angle (step_objects ?s ! i)))"
    by (simp only: obj circ_body_proj [OF n])
  have src: "\<And>i. i < ?n \<Longrightarrow> arrow_source (arrows ?s ! i) = i"
    by (simp only: arr circ_body_proj [OF n])
  have endp: "\<And>i. i < ?n \<Longrightarrow> end_pos (arrows ?s ! i) =
         ((25/10) * cos (real ((i + 1) mod ?n) * 2 * pi / real ?n - pi / 2)
            - (1/2) * cos (real ((i + 1) mod ?n) * 2 * pi / real ?n - pi / 2 - pi/6),
          (25/10) * sin (real ((i + 1) mod ?n) * 2 * pi / real ?n - pi / 2)
            - (1/2) * sin (real ((i + 1) mod ?n) * 2 * pi / real ?n - pi / 2 - pi/6))"
    by (simp only: arr circ_body_proj [OF n])
  have tgt: "\<And>i. i < ?n \<Longrightarrow> end_pos (arrows ?s ! i) =
             (let target = step_objects ?s ! ((i + 1) mod ?n)
              in (fst (elem_shift target) - (1/2) * cos (elem_angle target - pi/6),
                  snd (elem_shift target) - (1/2) * sin (elem_angle target - pi/6)))"
  proof -
    fix i assume i: "i < ?n"
    have m: "(i + 1) mod ?n < ?n" using n by simp
    show "end_pos (arrows ?s ! i) =
             (let target = step_objects ?s ! ((i + 1) mod ?n)
              in (fst (elem_shift target) - (1/2) * cos (elem_angle target - pi/6),
                  snd (elem_shift target) - (1/2) * sin (elem_angle target - pi/6)))"
      unfolding Let_def shf [OF m] ang [OF m] endp [OF i] by simp
  qed
  have delta: "\<And>i. Suc i < ?n \<Longrightarrow>
      elem_angle (step_objects ?s ! Suc i) - elem_angle (step_objects ?s ! i) = 2 * pi / real ?n"
  proof -
    fix i assume i: "Suc i < ?n"
    then have i': "i < ?n" by simp
    show "elem_angle (step_objects ?s ! Suc i) - elem_angle (step_objects ?s ! i) = 2 * pi / real ?n"
      unfolding ang [OF i] ang [OF i'] using n by (simp add: field_simps)
  qed
  have last0: "end_pos (arrows ?s ! (?n - 1)) =
             (fst (elem_shift (step_objects ?s ! 0)) - (1/2) * cos (elem_angle (step_objects ?s ! 0) - pi/6),
              snd (elem_shift (step_objects ?s ! 0)) - (1/2) * sin (elem_angle (step_objects ?s ! 0) - pi/6))"
  proof -
    have l: "?n - 1 < ?n" using n by simp
    have z: "(?n - 1 + 1) mod ?n = 0" using n by simp
    from tgt [OF l] show ?thesis unfolding z Let_def .
  qed
  have five: "?n = 5 \<Longrightarrow> map (\<lambda>e. elem_angle e * 180 / pi) (step_objects ?s) = [-90, -18, 54, 126, 198]"
  proof -
    assume f: "?n = 5"
    have len: "length (step_objects ?s) = 5" using f by simp
    have "\<And>i. i < 5 \<Longrightarrow> elem_angle (step_objects ?s ! i) * 180 / pi = [-90, -18, 54, 126, 198] ! i"
    proof -
      fix i :: nat assume "i < 5"
      then have c: "i = 0 \<or> i = 1 \<or> i = 2 \<or> i = 3 \<or> i = 4" by auto
      have a: "elem_angle (step_objects ?s ! i) = real i * 2 * pi / 5 - pi / 2"
        using ang [of i] f \<open>i < 5\<close> by simp
      show "elem_angle (step_objects ?s ! i) * 180 / pi = [-90, -18, 54, 126, 198] ! i"
        unfolding a using c by (auto simp add: field_simps)
    qed
    with len show ?thesis
      by (intro nth_equalityI) simp_all
  qed
  show ?thesis
    apply (rule exI [of _ ?s])
    apply (intro conjI allI impI)
             apply (rule create_circular_flow_closed [OF assms])
            apply simp
           apply simp
          apply (erule ang)
         apply (erule shf)
        apply (erule delta)
       apply (erule src)
      apply (erule tgt)
     apply (rule last0)
    apply (erule five)
    done
qed

text \<open>
  C3. Claimed: element \<open>i\<close> is placed at angle \<open>i * 2\<pi> / N - \<pi>/2\<close>, the angles partition
  the circle evenly starting from the top, and the arrows close the cycle.  The angles,
  their spacing and the closing arrow are as claimed (\<open>circular_flow_angles\<close>), but the
  circle does not start from the top: the element is shifted by \<open>RIGHT * x + UP * y\<close>
  with \<open>y = 2.5 * sin angle\<close>, so for the request
  \<open>{flow_type: circular, steps: [A, B, C, D, E]}\<close> element 0, at angle \<open>- \<pi>/2\<close>, is shifted
  by \<open>(0, -2.5)\<close>, the lowest point of the circle; with two steps it is element 1 that is
  at the top, \<open>(0, 2.5)\<close>.  The comment of the angle computation reads \<open>Start from top\<close>.
  The script generated for the request tests the text \<open>circular\<close> in its three branches and
  passes the five steps, as \<open>json.dumps\<close> writes them, and \<open>False\<close> to
  \<open>create_circular_flow\<close>.
\<close>

theorem circular_flow_starts_at_bottom:
  "fst (pf_generate_script
          [(''flow_type'', JStr ''circular''),
           (''steps'', JList [JObj [(''name'', JStr ''A'')], JObj [(''name'', JStr ''B'')],
                              JObj [(''name'', JStr ''C'')], JObj [(''name'', JStr ''D'')],
                              JObj [(''name'', JStr ''E'')]])]
          ''3f2a-01'')
     = (let steps = JList [JObj [(''name'', JStr ''A'')], JObj [(''name'', JStr ''B'')],
                           JObj [(''name'', JStr ''C'')], JObj [(''name'', JStr ''D'')],
                           JObj [(''name'', JStr ''E'')]];
            flow_type = JStr ''circular'';
            show_timing = JBool False
        in Inr [Plain ''3f2a_01'', Fmt (JStr ''Process Flow''),
                Fmt flow_type, Dumps steps, Fmt show_timing,
                Fmt flow_type, Dumps steps, Fmt show_timing,
                Fmt flow_type, Dumps steps, Fmt show_timing,
                Dumps steps, Fmt show_timing,
                Dumps steps])
   \<and> map_sum id (\<lambda>s. (elem_angle (step_objects s ! 0), elem_shift (step_objects s ! 0)))
       (create_circular_flow
          [[(''name'', ''A'')], [(''name'', ''B'')], [(''name'', ''C'')], [(''name'', ''D'')],
           [(''name'', ''E'')]] False)
     = Inr (- pi / 2, (0, - (25/10)))
   \<and> map_sum id (\<lambda>s. map elem_shift (step_objects s))
       (create_circular_flow [[(''name'', ''A'')], [(''name'', ''B'')]] False)
     = Inr [(0, - (25/10)), (0, 25/10)]"
proof -
  have r: "fst (pf_generate_script
          [(''flow_type'', JStr ''circular''),
           (''steps'', JList [JObj [(''name'', JStr ''A'')], JObj [(''name'', JStr ''B'')],
                              JObj [(''name'', JStr ''C'')], JObj [(''name'', JStr ''D'')],
                              JObj [(''name'', JStr ''E'')]])]
          ''3f2a-01'')
     = (let steps = JList [JObj [(''name'', JStr ''A'')], JObj [(''name'', JStr ''B'')],
                           JObj [(''name'', JStr ''C'')], JObj [(''name'', JStr ''D'')],
                           JObj [(''name'', JStr ''E'')]];
            flow_type = JStr ''circular'';
            show_timing = JBool False
        in Inr [Plain ''3f2a_01'', Fmt (JStr ''Process Flow''),
                Fmt flow_type, Dumps steps, Fmt show_timing,
                Fmt flow_type, Dumps steps, Fmt show_timing,
                Fmt flow_type, Dumps steps, Fmt show_timing,
                Dumps steps, Fmt show_timing,
                Dumps steps])"
    by (simp add: pf_generate_script_def read_def replace_char_def dict_get_def Let_def)
  have a: "map_sum id (\<lambda>s. (elem_angle (step_objects s ! 0), elem_shift (step_objects s ! 0)))
     (create_circular_flow
        [[(''name'', ''A'')], [(''name'', ''B'')], [(''name'', ''C'')], [(''name'', ''D'')],
         [(''name'', ''E'')]] False)
     = Inr (- pi / 2, (0, - (25/10)))"
    by (simp add: create_circular_flow_closed circ_body_proj)
  have b: "map_sum id (\<lambda>s. map elem_shift (step_objects s))
       (create_circular_flow [[(''name'', ''A'')], [(''name'', ''B'')]] False)
     = Inr [(0, - (25/10)), (0, 25/10)]"
    by (simp add: create_circular_flow_closed circ_body_proj)
  from r a b show ?thesis by (intro conjI)
qed

section \<open>Generators: results\<close>

text \<open>
  The data-structure generator never returns a script: the specification text of the first
  table entry is not a format specification for a string, so formatting the field that
  stands for the complexity table raises \<open>ValueError\<close>.
\<close>

lemma entry_spec_invalid: "format_str v (entry_spec c indent) = Inl ValueError"
  by (simp add: format_str_def entry_spec_def dq_def Let_def is_digit_def)

lemma table_field_raises: "format_field ''array'' table_spec = Inl ValueError"
  by (simp add: format_field_def table_spec_def complexities_def entry_spec_invalid)

lemma complexity_keys:
  "\<exists>a s i d sp. get_complexity_data t =
      [(''access'', a), (''search'', s), (''insert'', i), (''delete'', d), (''space'', sp)]"
  by (simp add: get_complexity_data_def complexities_def unknown_complexity_def)

lemma ds_generate_script_value_error:
  "dict_get d ''type'' (JStr ''array'') = JStr t \<Longrightarrow>
   ds_generate_script d animation_id = (Inl ValueError, d)"
proof -
  assume t: "dict_get d ''type'' (JStr ''array'') = JStr t"
  obtain a s i dl sp where c: "get_complexity_data t =
      [(''access'', a), (''search'', s), (''insert'', i), (''delete'', dl), (''space'', sp)]"
    using complexity_keys by blast
  show ?thesis
    by (simp add: ds_generate_script_def read_def t get_complexity_data_of_def c title_field_def
        dict_item_def table_field_raises eval_nat_numeral)
qed

lemma ds_generate_script_raises: "\<exists>e. fst (ds_generate_script d animation_id) = Inl e"
proof (cases "dict_get d ''type'' (JStr ''array'')")
  case (JStr t)
  then show ?thesis by (simp add: ds_generate_script_value_error)
qed (simp_all add: ds_generate_script_def read_def get_complexity_data_of_def title_field_def
      unknown_complexity_def)

lemma pf_generate_script_returns: "\<exists>fields. fst (pf_generate_script d a) = Inr fields"
  by (simp add: pf_generate_script_def read_def)

lemma generate_script_frame:
  "snd (http_generate_script d a) = d"
  "snd (dns_generate_script d a) = d"
  "snd (ds_generate_script d a) = d"
  "snd (pf_generate_script d a) = d"
  by (simp_all add: http_generate_script_def dns_generate_script_def ds_generate_script_def
      pf_generate_script_def read_def)

subsection \<open>Empty input\<close>

text \<open>
  C5. Claimed: a circular layout with zero elements and a binary-tree layout with empty data
  fail with an error.  Both return normally, having drawn nothing.
\<close>

theorem empty_input_returns_normally:
  "create_circular_flow [] False = Inr \<lparr>step_objects = [], arrows = [], cycle_text = False\<rparr>
   \<and> create_binary_tree_visualization [] [] = Inr \<lparr>nodes = Map.empty, edges = [], tree_played = []\<rparr>"
  by (simp add: create_circular_flow_def create_binary_tree_visualization_def binary_tree_layout_def)

text \<open>
  C5, as amended: a circular layout with zero elements and a binary-tree layout with empty
  data return at once without raising and draw nothing; the circular layout never divides
  by zero, whatever the step list; the process-flow generator returns its script for every
  request, one with no steps included.
\<close>

theorem empty_layouts_draw_nothing:
  "create_circular_flow [] show_timing
     = Inr \<lparr>step_objects = [], arrows = [], cycle_text = False\<rparr>
   \<and> create_binary_tree_visualization [] operations
     = Inr \<lparr>nodes = Map.empty, edges = [], tree_played = []\<rparr>
   \<and> (\<forall>steps_data. create_circular_flow steps_data show_timing \<noteq> Inl ZeroDivisionError)
   \<and> (\<exists>fields. fst (pf_generate_script process_data animation_id) = Inr fields)"
proof -
  have "\<forall>steps_data. create_circular_flow steps_data show_timing \<noteq> Inl ZeroDivisionError"
  proof
    fix steps_data
    from create_circular_flow_total [of steps_data show_timing]
    show "create_circular_flow steps_data show_timing \<noteq> Inl ZeroDivisionError" by auto
  qed
  with pf_generate_script_returns [of process_data animation_id] show ?thesis
    by (simp add: create_circular_flow_def create_binary_tree_visualization_def
        binary_tree_layout_def)
qed

text \<open>
  The theorem at an operation list for the tree, a one-step list for the division, and the
  request \<open>{flow_type: circular, steps: []}\<close>.
\<close>

theorem empty_layouts_draw_nothing_witness:
  "create_circular_flow [] True
     = Inr \<lparr>step_objects = [], arrows = [], cycle_text = False\<rparr>
   \<and> create_binary_tree_visualization [] [[(''type'', JStr ''insert''), (''value'', JInt 5)]]
     = Inr \<lparr>nodes = Map.empty, edges = [], tree_played = []\<rparr>
   \<and> create_circular_flow [[(''name'', ''A'')]] True \<noteq> Inl ZeroDivisionError
   \<and> (\<exists>fields. fst (pf_generate_script
                          [(''flow_type'', JStr ''circular''), (''steps'', JList [])]
                          ''3f2a-01'') = Inr fields)"
  using empty_layouts_draw_nothing
    [of True "[[(''type'', JStr ''insert''), (''value'', JInt 5)]]"
        "[(''flow_type'', JStr ''circular''), (''steps'', JList [])]" "''3f2a-01''"]
  by blast

subsection \<open>The array request and unknown kinds\<close>

text \<open>
  What the scene class would do for a structure type outside the seven it compares with:
  the complexity record has \<open>O(?)\<close> in every field, the generic layout is played with the
  data, and the operations are not used.
\<close>

lemma ds_unknown_kind_generic:
  assumes "structure_type \<notin> set [''array'', ''linked_list'', ''stack'', ''queue'',
                                   ''binary_tree'', ''hash_table'', ''graph'']"
  shows "get_complexity_data structure_type =
           [(''access'', ''O(?)''), (''search'', ''O(?)''), (''insert'', ''O(?)''),
            (''delete'', ''O(?)''), (''space'', ''O(?)'')]"
    and "ds_construct structure_type data operations show_complexity
           (get_complexity_data structure_type) =
         Inr \<lparr>complexity_panel =
                (if show_complexity
                 then Some [''Access: O(?)'', ''Search: O(?)'', ''Insert: O(?)'',
                            ''Delete: O(?)'', ''Space: O(?)'']
                 else None),
              body = GenericBody \<lparr>generic_title = ''Generic Data Structure'',
                                   generic_data = data\<rparr>\<rparr>"
proof -
  from assms have m: "map_of complexities structure_type = None"
    by (simp add: complexities_def)
  then show c: "get_complexity_data structure_type =
           [(''access'', ''O(?)''), (''search'', ''O(?)''), (''insert'', ''O(?)''),
            (''delete'', ''O(?)''), (''space'', ''O(?)'')]"
    by (simp add: get_complexity_data_def unknown_complexity_def)
  from assms show "ds_construct structure_type data operations show_complexity
           (get_complexity_data structure_type) =
         Inr \<lparr>complexity_panel =
                (if show_complexity
                 then Some [''Access: O(?)'', ''Search: O(?)'', ''Insert: O(?)'',
                            ''Delete: O(?)'', ''Space: O(?)'']
                 else None),
              body = GenericBody \<lparr>generic_title = ''Generic Data Structure'',
                                   generic_data = data\<rparr>\<rparr>"
    unfolding c
    by (simp add: ds_construct_def ds_dispatch_def show_complexity_info_def dict_item_def
        create_generic_visualization_def)
qed

text \<open>
  C8. Claimed: for a structure type outside the seven supported ones the driver does not
  fail and falls back to the generic layout.  For the request
  \<open>{type: heap, data: [3, 1, 2]}\<close> the generator raises \<open>ValueError\<close> and returns no script
  (as it does for every request, \<open>ds_generate_script_raises\<close>), so no layout is played at
  all.  The fallback is there in the scene class (\<open>ds_unknown_kind_generic\<close>).
\<close>

theorem unknown_kind_request_raises:
  "ds_generate_script [(''type'', JStr ''heap''), (''data'', JList [JInt 3, JInt 1, JInt 2])]
     ''3f2a-01''
   = (Inl ValueError, [(''type'', JStr ''heap''), (''data'', JList [JInt 3, JInt 1, JInt 2])])"
  by (rule ds_generate_script_value_error [of _ "''heap''"]) (simp add: dict_get_def)

text \<open>
  C7. Claimed: the request \<open>{type: array, data: [1, 2, 3, 4, 5], operations: [{type: update,
  index: 1, value: 10}]}\<close> yields a scene with 5 boxes, the complexity entries \<open>O(1)\<close> and
  \<open>O(n)\<close>, and one update step on index 1.  The generator raises \<open>ValueError\<close> for this
  request; and the scene class, were it emitted, raises \<open>AttributeError\<close> at the update
  step, since it has no method \<open>update_array_element\<close>.  Without the operation the 5 boxes
  are placed at \<open>(i - 5/2 + 0.5) * 1.4\<close>, and the complexity panel reads \<open>O(1)\<close> for
  access and \<open>O(n)\<close> for search.
\<close>

theorem array_update_request_fails:
  "ds_generate_script
     [(''type'', JStr ''array''),
      (''data'', JList [JInt 1, JInt 2, JInt 3, JInt 4, JInt 5]),
      (''operations'', JList [JObj [(''type'', JStr ''update''), (''index'', JInt 1),
                                    (''value'', JInt 10)]])]
     ''3f2a-01''
   = (Inl ValueError,
      [(''type'', JStr ''array''),
       (''data'', JList [JInt 1, JInt 2, JInt 3, JInt 4, JInt 5]),
       (''operations'', JList [JObj [(''type'', JStr ''update''), (''index'', JInt 1),
                                     (''value'', JInt 10)]])])
   \<and> ds_construct ''array'' [JInt 1, JInt 2, JInt 3, JInt 4, JInt 5]
       [[(''type'', JStr ''update''), (''index'', JInt 1), (''value'', JInt 10)]] True
       (get_complexity_data ''array'')
     = Inl (AttributeError ''update_array_element'')
   \<and> create_array_visualization [JInt 1, JInt 2, JInt 3, JInt 4, JInt 5] []
     = Inr \<lparr>array_boxes = [-28/10, -14/10, 0, 14/10, 28/10],
            array_values = [JInt 1, JInt 2, JInt 3, JInt 4, JInt 5],
            array_indices = [0, 1, 2, 3, 4],
            array_addresses = [1000, 1004, 1008, 1012, 1016],
            array_played = []\<rparr>
   \<and> show_complexity_info (get_complexity_data ''array'')
     = Inr [''Access: O(1)'', ''Search: O(n)'', ''Insert: O(n)'', ''Delete: O(n)'', ''Space: O(n)'']"
proof (intro conjI)
  show "ds_generate_script
     [(''type'', JStr ''array''),
      (''data'', JList [JInt 1, JInt 2, JInt 3, JInt 4, JInt 5]),
      (''operations'', JList [JObj [(''type'', JStr ''update''), (''index'', JInt 1),
                                    (''value'', JInt 10)]])]
     ''3f2a-01''
   = (Inl ValueError,
      [(''type'', JStr ''array''),
       (''data'', JList [JInt 1, JInt 2, JInt 3, JInt 4, JInt 5]),
       (''operations'', JList [JObj [(''type'', JStr ''update''), (''index'', JInt 1),
                                     (''value'', JInt 10)]])])"
    by (rule ds_generate_script_value_error [of _ "''array''"]) (simp add: dict_get_def)
  show "ds_construct ''array'' [JInt 1, JInt 2, JInt 3, JInt 4, JInt 5]
       [[(''type'', JStr ''update''), (''index'', JInt 1), (''value'', JInt 10)]] True
       (get_complexity_data ''array'')
     = Inl (AttributeError ''update_array_element'')"
    by (simp add: ds_construct_def ds_dispatch_def create_array_visualization_def dict_get_def
        show_complexity_info_def dict_item_def get_complexity_data_def complexities_def Let_def)
  show "create_array_visualization [JInt 1, JInt 2, JInt 3, JInt 4, JInt 5] []
     = Inr \<lparr>array_boxes = [-28/10, -14/10, 0, 14/10, 28/10],
            array_values = [JInt 1, JInt 2, JInt 3, JInt 4, JInt 5],
            array_indices = [0, 1, 2, 3, 4],
            array_addresses = [1000, 1004, 1008, 1012, 1016],
            array_played = []\<rparr>"
    by (simp add: create_array_visualization_def box_shift_def Let_def upt_rec [of 0]
        upt_rec [of 1] upt_rec [of 2] upt_rec [of 3] upt_rec [of 4] upt_rec [of 5])
  show "show_complexity_info (get_complexity_data ''array'')
     = Inr [''Access: O(1)'', ''Search: O(n)'', ''Insert: O(n)'', ''Delete: O(n)'', ''Space: O(n)'']"
    by (simp add: show_complexity_info_def dict_item_def get_complexity_data_def complexities_def)
qed

subsection \<open>Frame\<close>

text \<open>
  C10. Every generator returns the request dictionary as it received it, nested lists and
  dictionaries included, whether it returns a script or raises.
\<close>

theorem generate_script_leaves_request_unchanged:
  "snd (http_generate_script d a) = d
   \<and> snd (dns_generate_script d a) = d
   \<and> snd (ds_generate_script d a) = d
   \<and> snd (pf_generate_script d a) = d"
  by (simp add: generate_script_frame)

text \<open>
  The theorem at one request per generator.
\<close>

theorem generate_script_leaves_request_unchanged_witness:
  "snd (http_generate_script
          [(''title'', JStr ''Login''),
           (''steps'', JList [JObj [(''direction'', JStr ''request''),
                                    (''headers'', JObj [(''Accept'', JStr ''*/*'')])]])]
          ''3f2a-01'')
     = [(''title'', JStr ''Login''),
        (''steps'', JList [JObj [(''direction'', JStr ''request''),
                                 (''headers'', JObj [(''Accept'', JStr ''*/*'')])]])]
   \<and> snd (dns_generate_script [(''domain'', JStr ''example.com'')] ''3f2a-01'')
     = [(''domain'', JStr ''example.com'')]
   \<and> snd (ds_generate_script
          [(''type'', JStr ''stack''), (''data'', JList [JInt 10, JInt 20]),
           (''operations'', JList [JObj [(''type'', JStr ''pop'')]])] ''3f2a-01'')
     = [(''type'', JStr ''stack''), (''data'', JList [JInt 10, JInt 20]),
        (''operations'', JList [JObj [(''type'', JStr ''pop'')]])]
   \<and> snd (pf_generate_script
          [(''flow_type'', JStr ''circular''), (''steps'', JList [JObj [(''name'', JStr ''A'')]])]
          ''3f2a-01'')
     = [(''flow_type'', JStr ''circular''), (''steps'', JList [JObj [(''name'', JStr ''A'')]])]"
  using
    generate_script_leaves_request_unchanged
      [of "[(''title'', JStr ''Login''),
           (''steps'', JList [JObj [(''direction'', JStr ''request''),
                                    (''headers'', JObj [(''Accept'', JStr ''*/*'')])]])]"
          "''3f2a-01''"]
    generate_script_leaves_request_unchanged
      [of "[(''domain'', JStr ''example.com'')]" "''3f2a-01''"]
    generate_script_leaves_request_unchanged
      [of "[(''type'', JStr ''stack''), (''data'', JList [JInt 10, JInt 20]),
           (''operations'', JList [JObj [(''type'', JStr ''pop'')]])]" "''3f2a-01''"]
    generate_script_leaves_request_unchanged
      [of "[(''flow_type'', JStr ''circular''), (''steps'', JList [JObj [(''name'', JStr ''A'')]])]"
          "''3f2a-01''"]
  by blast

end
